theory Spec2Isabelle
  imports Main "HOL-Library.AList"
begin

section \<open>JavaScript values the bot handles\<close>

text \<open>
  The bot (\<^verbatim>\<open>bot.js\<close>, class \<^verbatim>\<open>OnlineBot\<close>) scrapes counts from a page and keeps one
  Discord message in step with them.  Its numbers all come out of \<^verbatim>\<open>parseInt\<close>, so a
  Number is \<open>NaN\<close> or an integer.  The model keeps the mathematical integer that
  \<^verbatim>\<open>parseInt\<close> reads; the last step of \<^verbatim>\<open>parseInt\<close>, the conversion of that integer to a
  double, is the identity up to \<open>2^53\<close> and is not modelled beyond (nor is the sign of
  zero, which no operation of the bot can observe).  \<^verbatim>\<open>undefined\<close> is \<open>None\<close>.

  A string is a list of code units below 256 (\<open>char\<close>); a thrown value is an \<open>error\<close>
  carrying its \<^verbatim>\<open>message\<close> (\<open>err_message\<close>).
\<close>

datatype number = NaN | Num int

datatype error = Error string | TypeError string

fun err_message :: "error \<Rightarrow> string" where
  "err_message (Error m) = m"
| "err_message (TypeError m) = m"

datatype jsval =
    JNull
  | JBool bool
  | JNum number
  | JStr string
  | JArr "jsval list"
  | JObj "(string \<times> jsval) list"

text \<open>\<^verbatim>\<open>Number.isNaN\<close>.\<close>

fun isNaN :: "number \<Rightarrow> bool" where
  "isNaN NaN = True"
| "isNaN (Num n) = False"

text \<open>The decimal numeral of a natural number, most significant digit first.\<close>

fun string_of_nat :: "nat \<Rightarrow> string" where
  "string_of_nat n =
     (if n < 10 then [''0123456789'' ! n]
      else string_of_nat (n div 10) @ [''0123456789'' ! (n mod 10)])"

declare string_of_nat.simps [simp del]

text \<open>What a template literal \<^verbatim>\<open>${x}\<close> prints for a Number.\<close>

fun toString :: "number \<Rightarrow> string" where
  "toString NaN = ''NaN''"
| "toString (Num n) = (if n < 0 then ''-'' @ string_of_nat (nat (- n)) else string_of_nat (nat n))"

text \<open>... for a Number that may be \<^verbatim>\<open>undefined\<close> ...\<close>

fun toString_opt :: "number option \<Rightarrow> string" where
  "toString_opt None = ''undefined''"
| "toString_opt (Some x) = toString x"

text \<open>... and for an array of Numbers (\<^verbatim>\<open>Array.prototype.join\<close> with a comma).\<close>

fun join :: "string list \<Rightarrow> string" where
  "join [] = []"
| "join [x] = x"
| "join (x # y # ys) = x @ '','' @ join (y # ys)"

fun toString_arr :: "number list option \<Rightarrow> string" where
  "toString_arr None = ''undefined''"
| "toString_arr (Some xs) = join (map toString xs)"

abbreviation apostrophe :: string where
  "apostrophe \<equiv> [CHR 0x27]"

subsection \<open>\<^verbatim>\<open>String.prototype.trim\<close> and \<^verbatim>\<open>parseInt\<close>\<close>

text \<open>
  White space and line terminators among the code units below 256: TAB, LF, VT, FF, CR,
  SP and NBSP.
\<close>

definition isWhiteSpace :: "char \<Rightarrow> bool" where
  "isWhiteSpace c =
     (c \<in> set [CHR 0x09, CHR 0x0A, CHR 0x0B, CHR 0x0C, CHR 0x0D, CHR 0x20, CHR 0xA0])"

definition trimStart :: "string \<Rightarrow> string" where
  "trimStart s = dropWhile isWhiteSpace s"

definition trim :: "string \<Rightarrow> string" where
  "trim s = rev (dropWhile isWhiteSpace (rev (dropWhile isWhiteSpace s)))"

definition digitValue :: "char \<Rightarrow> nat option" where
  "digitValue c = map_of
     [(CHR ''0'', 0), (CHR ''1'', 1), (CHR ''2'', 2), (CHR ''3'', 3), (CHR ''4'', 4),
      (CHR ''5'', 5), (CHR ''6'', 6), (CHR ''7'', 7), (CHR ''8'', 8), (CHR ''9'', 9),
      (CHR ''a'', 10), (CHR ''b'', 11), (CHR ''c'', 12), (CHR ''d'', 13), (CHR ''e'', 14),
      (CHR ''f'', 15), (CHR ''A'', 10), (CHR ''B'', 11), (CHR ''C'', 12), (CHR ''D'', 13),
      (CHR ''E'', 14), (CHR ''F'', 15)] c"

definition isRadixDigit :: "nat \<Rightarrow> char \<Rightarrow> bool" where
  "isRadixDigit R c = (case digitValue c of None \<Rightarrow> False | Some d \<Rightarrow> d < R)"

text \<open>The integer that the digits \<open>Z\<close> denote in radix \<open>R\<close>.\<close>

definition mathInt :: "nat \<Rightarrow> string \<Rightarrow> nat" where
  "mathInt R Z = foldl (\<lambda>acc c. acc * R + (case digitValue c of Some d \<Rightarrow> d | None \<Rightarrow> 0)) 0 Z"

text \<open>
  \<^verbatim>\<open>parseInt(string)\<close> with no radix, step by step as ECMAScript defines it: skip leading
  white space, read a sign, take radix 16 after a \<^verbatim>\<open>0x\<close>/\<^verbatim>\<open>0X\<close> prefix and radix 10
  otherwise, keep the longest prefix of digits of that radix, and answer \<open>NaN\<close> when that
  prefix is empty.  Whatever follows the digits is ignored.
\<close>

definition parseInt :: "string \<Rightarrow> number" where
  "parseInt inputString =
     (let S = trimStart inputString;
          sign = (if S \<noteq> [] \<and> hd S = CHR ''-'' then - 1 else 1 :: int);
          S = (if S \<noteq> [] \<and> (hd S = CHR ''+'' \<or> hd S = CHR ''-'') then tl S else S);
          hex = (take 2 S = ''0x'' \<or> take 2 S = ''0X'');
          R = (if hex then 16 else 10);
          S = (if hex then drop 2 S else S);
          Z = takeWhile (isRadixDigit R) S
      in if Z = [] then NaN else Num (sign * int (mathInt R Z)))"

section \<open>The bot's data\<close>

text \<open>
  An embed is a JavaScript object.  The model keeps its \<^verbatim>\<open>fields\<close> array
  (\<open>embed_fields\<close>) apart from its other keys (\<open>embed_props\<close>), which are an association
  list in insertion order: \<^verbatim>\<open>embed[key] = v\<close> is \<open>AList.update key v\<close>.
\<close>

record embed =
  embed_fields :: "jsval list"
  embed_props :: "(string \<times> jsval) list"

text \<open>The object \<^verbatim>\<open>buildMessage\<close> returns, and a message of the channel.\<close>

record payload =
  embeds :: "embed list"
  content :: string

record message =
  msg_id :: string
  author_id :: string
  msg_embeds :: "embed list"
  createdTimestamp :: int

text \<open>
  A channel, as far as \<^verbatim>\<open>getOrSendMessage\<close> looks at it: \<open>messages\<close> is its history,
  most recent first, of which \<^verbatim>\<open>channel.messages.fetch({ limit: 10 })\<close> hands back the
  first ten.
\<close>

record channel =
  isTextBased :: bool
  messages :: "message list"

text \<open>\<^verbatim>\<open>client.user\<close>.\<close>

record client =
  user_id :: string
  user_tag :: string

text \<open>
  \<^verbatim>\<open>config.json\<close>.  An absent key is \<open>None\<close>; \<open>cfg_worldsCount\<close> is the key
  \<^verbatim>\<open>worldsCount\<close> (the bot has a field of that name too) and \<open>cfg_embed\<close> the key
  \<^verbatim>\<open>embed\<close>, an object given by its own keys in order.
\<close>

record config =
  channelId :: string
  url :: string
  totalCount :: string
  cfg_worldsCount :: "string option"
  pollRate :: int
  cfg_embed :: "(string \<times> jsval) list option"

text \<open>The fields of an \<^verbatim>\<open>OnlineBot\<close>; \<open>None\<close> is \<^verbatim>\<open>undefined\<close>.\<close>

record bot =
  client :: client
  config :: config
  messageRef :: "message option"
  cachedCount :: "number option"
  worldsCount :: "number list option"
  running :: bool

definition constructor :: "config \<Rightarrow> client \<Rightarrow> bot" where
  "constructor cfg cl =
     \<lparr>client = cl, config = cfg, messageRef = None, cachedCount = None,
      worldsCount = Some [], running = False\<rparr>"

text \<open>
  What the bot does to the outside, in the order it does it: a line through
  \<^verbatim>\<open>util.log\<close> or \<^verbatim>\<open>util.error\<close>, a call of \<^verbatim>\<open>messageRef.edit\<close> or
  \<^verbatim>\<open>channel.send\<close>, a timer armed with \<^verbatim>\<open>setTimeout\<close>.
\<close>

datatype event =
    Log string
  | LogError string
  | Edit message payload
  | Send payload
  | SetTimeout int

text \<open>
  An asynchronous method ends by throwing (\<open>Inl\<close>) or returning (\<open>Inr\<close>), after the
  events it caused.
\<close>

type_synonym 'a completion = "(error + 'a) \<times> event list"

section \<open>Fetching the counts\<close>

text \<open>
  \<^verbatim>\<open>util.fetchData\<close> is not part of the sources at hand.  Its outcome is an input of
  the model: it throws, or yields the element whose \<^verbatim>\<open>text()\<close> is the given string
  (for the total) or the list of matched elements (for the worlds).
\<close>

text \<open>The body of the \<^verbatim>\<open>try\<close> block of \<^verbatim>\<open>fetchTotalMemberCount\<close>.\<close>

definition fetchTotalMemberCount_try :: "error + string \<Rightarrow> error + number" where
  "fetchTotalMemberCount_try fetched =
     (case fetched of
        Inl err \<Rightarrow> Inl err
      | Inr siteCount \<Rightarrow>
          (let count = parseInt (trim siteCount) in
           if isNaN count
           then Inl (Error (''Could not parse member count from the site. Expected a number but got ''
                            @ apostrophe @ trim siteCount @ apostrophe))
           else Inr count))"

text \<open>
  \<^verbatim>\<open>fetchTotalMemberCount\<close>: the \<^verbatim>\<open>catch\<close> logs the error and falls off the end of the
  function, which then returns \<^verbatim>\<open>undefined\<close>.
\<close>

definition fetchTotalMemberCount :: "error + string \<Rightarrow> number option completion" where
  "fetchTotalMemberCount fetched =
     (case fetchTotalMemberCount_try fetched of
        Inr count \<Rightarrow> (Inr (Some count), [])
      | Inl err \<Rightarrow> (Inr None, [LogError (''Error fetching member count: '' @ err_message err)]))"

text \<open>
  A matched element, as far as \<^verbatim>\<open>i.firstChild.data\<close> reads it: no first child
  (\<^verbatim>\<open>null\<close>), a first child without \<^verbatim>\<open>data\<close> (an element), or one with \<^verbatim>\<open>data\<close>
  (a text node).
\<close>

datatype child = NoData | Data string

record element =
  firstChild :: "child option"

text \<open>The \<^verbatim>\<open>for\<close> loop of \<^verbatim>\<open>fetchWorldsMemberCount\<close>, pushing onto the local array \<open>worldsCount'\<close>.\<close>

fun worlds_loop :: "element list \<Rightarrow> number list \<Rightarrow> error + number list" where
  "worlds_loop [] worldsCount' = Inr worldsCount'"
| "worlds_loop (i # rest) worldsCount' =
     (case firstChild i of
        None \<Rightarrow> Inl (TypeError ''Cannot read properties of null (reading 'data')'')
      | Some NoData \<Rightarrow> Inl (TypeError ''Cannot read properties of undefined (reading 'trim')'')
      | Some (Data siteCount) \<Rightarrow>
          (let count = parseInt (trim siteCount) in
           if isNaN count
           then Inl (Error (''Could not parse worlds member count from the site. Expected a number but got ''
                            @ apostrophe @ trim siteCount @ apostrophe))
           else worlds_loop rest (worldsCount' @ [count])))"

definition fetchWorldsMemberCount_try :: "error + element list \<Rightarrow> error + number list" where
  "fetchWorldsMemberCount_try fetched =
     (case fetched of
        Inl err \<Rightarrow> Inl err
      | Inr elements \<Rightarrow> worlds_loop elements [])"

definition fetchWorldsMemberCount :: "error + element list \<Rightarrow> number list option completion" where
  "fetchWorldsMemberCount fetched =
     (case fetchWorldsMemberCount_try fetched of
        Inr worldsCount' \<Rightarrow> (Inr (Some worldsCount'), [])
      | Inl err \<Rightarrow> (Inr None, [LogError (''Error fetching member count: '' @ err_message err)]))"

section \<open>Building the message\<close>

text \<open>The callback of \<^verbatim>\<open>this.worldsCount.map\<close>: the field of world \<open>i + 1\<close>.\<close>

definition world_field :: "number \<Rightarrow> nat \<Rightarrow> jsval" where
  "world_field c i =
     JObj [(''name'', JStr (''World '' @ toString (Num (int i + 1)))),
           (''value'', JStr (''**'' @ toString c @ ''**'')),
           (''inline'', JBool True)]"

text \<open>
  \<^verbatim>\<open>Array.prototype.concat\<close> with one argument: an array argument is spread, any other
  value is appended as it is.
\<close>

fun concat_arr :: "jsval list \<Rightarrow> jsval \<Rightarrow> jsval list" where
  "concat_arr xs (JArr ys) = xs @ ys"
| "concat_arr xs v = xs @ [v]"

text \<open>The \<^verbatim>\<open>for (const key in configEmbed)\<close> loop over the template's own keys.\<close>

fun applyConfigEmbed :: "(string \<times> jsval) list \<Rightarrow> embed \<Rightarrow> embed" where
  "applyConfigEmbed [] embed' = embed'"
| "applyConfigEmbed ((key, v) # rest) embed' =
     applyConfigEmbed rest
       (if key = ''fields''
        then embed'\<lparr>embed_fields := concat_arr (embed_fields embed') v\<rparr>
        else embed'\<lparr>embed_props := AList.update key v (embed_props embed')\<rparr>)"

text \<open>
  The first statements of \<^verbatim>\<open>buildMessage\<close>: the text of the count, and the object of
  the default embed settings.  \<open>now\<close> is what \<^verbatim>\<open>new Date().toISOString()\<close> gives at the
  call and \<open>ws\<close> the array in \<open>worldsCount\<close>.
\<close>

definition countText :: "bot \<Rightarrow> string" where
  "countText this =
     (case cachedCount this of
        Some c \<Rightarrow> ''**'' @ toString c @ ''**''
      | None \<Rightarrow> ''*Updating...*'')"

definition defaultEmbed :: "bot \<Rightarrow> string \<Rightarrow> number list \<Rightarrow> embed" where
  "defaultEmbed this now ws =
     \<lparr>embed_fields = map (\<lambda>(i, c). world_field c i) (enumerate 0 ws),
      embed_props =
        [(''color'', JNum (Num 0x0099ff)),
         (''title'', JStr ''Online Players''),
         (''url'', JStr (url (config this))),
         (''description'', JStr (''Current member count: '' @ countText this)),
         (''timestamp'', JStr now)]\<rparr>"

text \<open>
  \<^verbatim>\<open>buildMessage\<close>.  \<^verbatim>\<open>this.worldsCount.map\<close> throws a TypeError when \<open>worldsCount\<close> is
  \<^verbatim>\<open>undefined\<close>.
\<close>

definition buildMessage :: "bot \<Rightarrow> string \<Rightarrow> error + payload" where
  "buildMessage this now =
     (case worldsCount this of
        None \<Rightarrow> Inl (TypeError ''Cannot read properties of undefined (reading 'map')'')
      | Some ws \<Rightarrow>
          (let embed' = defaultEmbed this now ws;
               embed' = (case cfg_embed (config this) of
                           None \<Rightarrow> embed'
                         | Some configEmbed \<Rightarrow> applyConfigEmbed configEmbed embed')
           in Inr \<lparr>embeds = [embed'], content = []\<rparr>))"

section \<open>Finding or sending the tracked message\<close>

text \<open>
  What Discord answers while \<^verbatim>\<open>getOrSendMessage\<close> runs: \<^verbatim>\<open>client.channels.fetch\<close>
  throws or yields a channel or \<^verbatim>\<open>null\<close>; \<^verbatim>\<open>channel.messages.fetch\<close> may throw;
  \<^verbatim>\<open>channel.send\<close> throws or creates a message, to which Discord gives an id and a
  creation time.  \<open>ready_now\<close> is the clock.
\<close>

record ready_env =
  fetched_channel :: "error + channel option"
  messages_rejected :: "error option"
  send_outcome :: "error + string \<times> int"
  ready_now :: string

text \<open>
  The message that \<^verbatim>\<open>channel.send(payload)\<close> resolves to: written by the bot's user,
  carrying the embeds of the payload.
\<close>

definition sent_message :: "bot \<Rightarrow> payload \<Rightarrow> string \<times> int \<Rightarrow> message" where
  "sent_message this p given =
     \<lparr>msg_id = fst given, author_id = user_id (client this), msg_embeds = embeds p,
      createdTimestamp = snd given\<rparr>"

text \<open>The predicate of \<^verbatim>\<open>messages.filter\<close>.\<close>

definition botMessage :: "bot \<Rightarrow> message \<Rightarrow> bool" where
  "botMessage this msg = (author_id msg = user_id (client this) \<and> length (msg_embeds msg) > 0)"

text \<open>
  \<^verbatim>\<open>getOrSendMessage\<close>.  The error for a missing channel prints \<^verbatim>\<open>this.channelId\<close>,
  which no \<^verbatim>\<open>OnlineBot\<close> has.  \<^verbatim>\<open>sort\<close> with \<^verbatim>\<open>b.createdTimestamp - a.createdTimestamp\<close>
  is a stable sort by falling timestamp.
\<close>

definition getOrSendMessage :: "bot \<Rightarrow> ready_env \<Rightarrow> message completion" where
  "getOrSendMessage this env =
     (case fetched_channel env of
        Inl err \<Rightarrow> (Inl err, [])
      | Inr None \<Rightarrow>
          (Inl (Error (''Could not find channel with ID '' @ apostrophe @ ''undefined''
                       @ apostrophe @ '' or it is not a text channel.'')), [])
      | Inr (Some channel) \<Rightarrow>
          if \<not> isTextBased channel
          then (Inl (Error (''Could not find channel with ID '' @ apostrophe @ ''undefined''
                            @ apostrophe @ '' or it is not a text channel.'')), [])
          else
            (case messages_rejected env of
               Some err \<Rightarrow> (Inl err, [])
             | None \<Rightarrow>
                 (let messages' = take 10 (messages channel);
                      botMessages = filter (botMessage this) messages'
                  in if length botMessages > 0
                     then
                       (let sorted = sort_key (\<lambda>m. - createdTimestamp m) botMessages;
                            message' = hd sorted
                        in (Inr message',
                            [Log (''Found existing message with ID '' @ apostrophe
                                  @ msg_id message' @ apostrophe)]))
                     else
                       (case buildMessage this (ready_now env) of
                          Inl err \<Rightarrow> (Inl err, [])
                        | Inr p \<Rightarrow>
                            (case send_outcome env of
                               Inl err \<Rightarrow> (Inl err, [Send p])
                             | Inr given \<Rightarrow>
                                 (let message' = sent_message this p given
                                  in (Inr message',
                                      [Send p,
                                       Log (''Sent new message with ID '' @ apostrophe
                                            @ msg_id message' @ apostrophe)])))))))"

section \<open>The poll cycle\<close>

text \<open>
  What the outside does during one cycle: the two outcomes of \<^verbatim>\<open>util.fetchData\<close>,
  whether Discord rejects the edit, and the clock.
\<close>

record poll_env =
  fetched_totalCount :: "error + string"
  fetched_worldsCount :: "error + element list"
  edit_rejected :: "error option"
  now :: string

text \<open>
  Lines 55 to 58 of \<^verbatim>\<open>poll\<close>: with a \<^verbatim>\<open>worldsCount\<close> selector in the configuration (a
  non-empty string is truthy), whatever \<^verbatim>\<open>fetchWorldsMemberCount\<close> returns is stored.
\<close>

definition poll_worlds :: "bot \<Rightarrow> poll_env \<Rightarrow> (error + unit) \<times> bot \<times> event list" where
  "poll_worlds this env =
     (if cfg_worldsCount (config this) \<noteq> None \<and> cfg_worldsCount (config this) \<noteq> Some []
      then (case fetchWorldsMemberCount (fetched_worldsCount env) of
              (Inl err, evs) \<Rightarrow> (Inl err, this, evs)
            | (Inr fetched, evs) \<Rightarrow>
                (Inr (), this\<lparr>worldsCount := fetched\<rparr>,
                 evs @ [Log (''Fetched worlds count: '' @ toString_arr fetched)]))
      else (Inr (), this, []))"

text \<open>
  Lines 60 to 64: the guard, the assignment to \<open>cachedCount\<close>, then the edit.  The
  assignment comes first and stays when building the message or the edit throws.
\<close>

definition poll_update :: "bot \<Rightarrow> poll_env \<Rightarrow> number option \<Rightarrow> (error + unit) \<times> bot \<times> event list" where
  "poll_update this env newCount =
     (case newCount of
        None \<Rightarrow> (Inr (), this, [])
      | Some n \<Rightarrow>
          if \<not> isNaN n \<and> newCount \<noteq> cachedCount this
          then
            (let this' = this\<lparr>cachedCount := newCount\<rparr>
             in case messageRef this' of
                  None \<Rightarrow>
                    (Inl (TypeError ''Cannot read properties of undefined (reading 'edit')''),
                     this', [])
                | Some ref \<Rightarrow>
                    (case buildMessage this' (now env) of
                       Inl err \<Rightarrow> (Inl err, this', [])
                     | Inr p \<Rightarrow>
                         (case edit_rejected env of
                            Some err \<Rightarrow> (Inl err, this', [Edit ref p])
                          | None \<Rightarrow> (Inr (), this', [Edit ref p, Log ''Updated message'']))))
          else (Inr (), this, []))"

text \<open>The \<^verbatim>\<open>try\<close> block of \<^verbatim>\<open>poll\<close>: how it ends, the bot and the events so far.\<close>

definition poll_try :: "bot \<Rightarrow> poll_env \<Rightarrow> (error + unit) \<times> bot \<times> event list" where
  "poll_try this env =
     (case fetchTotalMemberCount (fetched_totalCount env) of
        (Inl err, evs1) \<Rightarrow> (Inl err, this, Log ''Polling site...'' # evs1)
      | (Inr newCount, evs1) \<Rightarrow>
          (let evs1' = Log ''Polling site...'' # evs1
                       @ [Log (''Fetched member count: '' @ toString_opt newCount)]
           in case poll_worlds this env of
                (Inl err, this1, evs2) \<Rightarrow> (Inl err, this1, evs1' @ evs2)
              | (Inr u, this1, evs2) \<Rightarrow>
                  (case poll_update this1 env newCount of
                     (r, this2, evs3) \<Rightarrow> (r, this2, evs1' @ evs2 @ evs3))))"

text \<open>
  \<^verbatim>\<open>poll\<close>: the \<^verbatim>\<open>catch\<close> logs and clears \<open>running\<close>; the timer for the next cycle is
  armed while \<open>running\<close> holds.
\<close>

definition poll :: "bot \<Rightarrow> poll_env \<Rightarrow> bot \<times> event list" where
  "poll this env =
     (case poll_try this env of
        (r, this1, evs) \<Rightarrow>
          (let (this2, evs') =
                 (case r of
                    Inl err \<Rightarrow>
                      (this1\<lparr>running := False\<rparr>,
                       evs @ [LogError (''Error during polling: '' @ err_message err)])
                  | Inr u \<Rightarrow> (this1, evs))
           in if running this2
              then (this2, evs' @ [SetTimeout (pollRate (config this2) * 1000)])
              else (this2, evs')))"

section \<open>The life of the process\<close>

fun isSetTimeout :: "event \<Rightarrow> bool" where
  "isSetTimeout (SetTimeout ms) = True"
| "isSetTimeout e = False"

text \<open>A cycle armed the timer for the next one.\<close>

definition armed :: "event list \<Rightarrow> bool" where
  "armed evs = list_ex isSetTimeout evs"

text \<open>
  The cycles that follow one another: the next \<^verbatim>\<open>poll\<close> runs when the timer of the
  last one fires, so only if that timer was armed.  The list holds what the outside does
  in each cycle, for as many cycles as are looked at.
\<close>

fun pollLoop :: "bot \<Rightarrow> poll_env list \<Rightarrow> bot \<times> event list" where
  "pollLoop this [] = (this, [])"
| "pollLoop this (env # envs) =
     (case poll this env of
        (this', evs) \<Rightarrow>
          if armed evs
          then (case pollLoop this' envs of (this'', evs') \<Rightarrow> (this'', evs @ evs'))
          else (this', evs))"

text \<open>\<^verbatim>\<open>run\<close> (registering the handler and logging in happen outside).\<close>

definition run :: "bot \<Rightarrow> bot" where
  "run this = this\<lparr>running := True\<rparr>"



section \<open>Notions for stating the properties\<close>


text \<open>The calls of \<^verbatim>\<open>messageRef.edit\<close> and of \<^verbatim>\<open>channel.send\<close> among some events.\<close>

fun edits :: "event list \<Rightarrow> (message \<times> payload) list" where
  "edits [] = []"
| "edits (Edit ref p # evs) = (ref, p) # edits evs"
| "edits (e # evs) = edits evs"

fun sends :: "event list \<Rightarrow> payload list" where
  "sends [] = []"
| "sends (Send p # evs) = p # sends evs"
| "sends (e # evs) = sends evs"

text \<open>An element whose first child is a text node.\<close>

definition text_element :: "string \<Rightarrow> element" where
  "text_element t = \<lparr>firstChild = Some (Data t)\<rparr>"

subsection \<open>A bot at work, for the examples\<close>

text \<open>
  A bot that runs, follows the worlds, has found its message and has shown 42 players,
  5 and 9 of them in the two worlds.
\<close>

definition example_client :: client where
  "example_client = \<lparr>user_id = ''7'', user_tag = ''online-bot#0001''\<rparr>"

definition example_config :: config where
  "example_config =
     \<lparr>channelId = ''100'', url = ''https://example.org/'', totalCount = ''#total'',
      cfg_worldsCount = Some ''.world'', pollRate = 60, cfg_embed = None\<rparr>"

definition example_message :: message where
  "example_message =
     \<lparr>msg_id = ''900'', author_id = ''7'',
      msg_embeds = [\<lparr>embed_fields = [], embed_props = [(''title'', JStr ''Online Players'')]\<rparr>],
      createdTimestamp = 1000\<rparr>"

definition example_bot :: bot where
  "example_bot =
     \<lparr>client = example_client, config = example_config, messageRef = Some example_message,
      cachedCount = Some (Num 42), worldsCount = Some [Num 5, Num 9], running = True\<rparr>"

text \<open>The template \<^verbatim>\<open>{ title: "X", fields: [f] }\<close>.\<close>

definition example_template :: "(string \<times> jsval) list" where
  "example_template =
     [(''title'', JStr ''X''),
      (''fields'', JArr [JObj [(''name'', JStr ''Site''), (''value'', JStr ''up'')]])]"

text \<open>
  Cycles the bot may live through: the page cannot be fetched; the count is 43 and
  Discord rejects the edit; the count is 42 as before while the worlds have changed; the
  count is 17; the second world shows no number.
\<close>

definition down_env :: poll_env where
  "down_env =
     \<lparr>fetched_totalCount = Inl (Error ''fetch failed''),
      fetched_worldsCount = Inr [text_element ''5'', text_element ''9''],
      edit_rejected = None, now = ''2024-05-01T12:00:00.000Z''\<rparr>"

definition rejected_env :: poll_env where
  "rejected_env =
     \<lparr>fetched_totalCount = Inr ''43'',
      fetched_worldsCount = Inr [text_element ''5'', text_element ''9''],
      edit_rejected = Some (Error ''Unknown Message''), now = ''2024-05-01T12:01:00.000Z''\<rparr>"

definition same_env :: poll_env where
  "same_env =
     \<lparr>fetched_totalCount = Inr '' 42 '',
      fetched_worldsCount = Inr [text_element ''6'', text_element ''8''],
      edit_rejected = None, now = ''2024-05-01T12:02:00.000Z''\<rparr>"

definition changed_env :: poll_env where
  "changed_env =
     \<lparr>fetched_totalCount = Inr ''17'',
      fetched_worldsCount = Inr [text_element ''5'', text_element ''9''],
      edit_rejected = None, now = ''2024-05-01T12:03:00.000Z''\<rparr>"

definition broken_worlds_env :: poll_env where
  "broken_worlds_env =
     \<lparr>fetched_totalCount = Inr ''42'',
      fetched_worldsCount = Inr [text_element ''12'', text_element ''n/a''],
      edit_rejected = None, now = ''2024-05-01T12:04:00.000Z''\<rparr>"

text \<open>
  Two channels, most recent message first.  In the first, two of the four messages are
  the bot's and carry an embed.  In the second, the bot's message lies behind ten
  messages of somebody else.
\<close>

definition user_message :: message where
  "user_message =
     \<lparr>msg_id = ''903'', author_id = ''8'', msg_embeds = [], createdTimestamp = 1300\<rparr>"

definition newer_message :: message where
  "newer_message =
     \<lparr>msg_id = ''902'', author_id = ''7'',
      msg_embeds = [\<lparr>embed_fields = [], embed_props = [(''title'', JStr ''Online Players'')]\<rparr>],
      createdTimestamp = 1200\<rparr>"

definition plain_message :: message where
  "plain_message =
     \<lparr>msg_id = ''901'', author_id = ''7'', msg_embeds = [], createdTimestamp = 1100\<rparr>"

definition busy_channel :: channel where
  "busy_channel =
     \<lparr>isTextBased = True,
      messages = [user_message, example_message, plain_message, newer_message]\<rparr>"

definition crowded_channel :: channel where
  "crowded_channel =
     \<lparr>isTextBased = True, messages = replicate 10 user_message @ [example_message]\<rparr>"

definition example_ready_env :: "channel \<Rightarrow> ready_env" where
  "example_ready_env ch =
     \<lparr>fetched_channel = Inr (Some ch), messages_rejected = None,
      send_outcome = Inr (''950'', 2000), ready_now = ''2024-05-01T11:59:00.000Z''\<rparr>"

section \<open>Reading a count\<close>

subsection \<open>Decimal numerals, \<open>trim\<close> and \<open>parseInt\<close>\<close>





















lemma isNaN_iff: "isNaN x \<longleftrightarrow> x = NaN"
  by (cases x) simp_all

text \<open>The definitions to unfold when a text is read at a concrete input.\<close>

lemmas parse_defs = parseInt_def trim_def trimStart_def isWhiteSpace_def isRadixDigit_def
  digitValue_def mathInt_def Let_def

subsection \<open>The total count\<close>




subsection \<open>The counts of the worlds\<close>

lemma worlds_loop_valid:
  "\<forall>t\<in>set ts. parseInt (trim t) \<noteq> NaN \<Longrightarrow>
   worlds_loop (map text_element ts @ rest) acc
     = worlds_loop rest (acc @ map (\<lambda>t. parseInt (trim t)) ts)"
  by (induction ts arbitrary: acc) (simp_all add: text_element_def isNaN_iff)

lemma worlds_loop_length:
  "worlds_loop els acc = Inr xs \<Longrightarrow> length xs = length acc + length els"
proof (induction els arbitrary: acc)
  case Nil
  then show ?case by simp
next
  case (Cons i rest)
  from Cons.prems obtain t where
    "worlds_loop rest (acc @ [parseInt (trim t)]) = Inr xs"
    by (auto split: option.splits child.splits if_splits simp: Let_def)
  from Cons.IH [OF this] show ?case by simp
qed

lemma fetchWorldsMemberCount_whole:
  "fetchWorldsMemberCount fetched = (Inr (Some xs), evs) \<Longrightarrow>
   \<exists>els. fetched = Inr els \<and> length xs = length els"
  by (auto simp: fetchWorldsMemberCount_def fetchWorldsMemberCount_try_def
      split: sum.splits dest: worlds_loop_length)

text \<open>
  Claim C7, as the code has it.  When the text of every element is read as a number, the
  function returns these numbers, one for each element and in the order of the elements.
  At the first text that is not, the loop throws an Error whose message holds the trimmed
  text (and nothing about where it stood); \<^verbatim>\<open>fetchWorldsMemberCount\<close> catches it, logs it
  and returns \<^verbatim>\<open>undefined\<close>.  Whatever was fetched, a sequence that is returned has one
  entry for each element: no part of a sequence is returned.
\<close>

theorem fetchWorldsMemberCount_extracts:
  "((\<forall>t\<in>set ts. parseInt (trim t) \<noteq> NaN) \<longrightarrow>
      fetchWorldsMemberCount (Inr (map text_element ts))
        = (Inr (Some (map (\<lambda>t. parseInt (trim t)) ts)), [])
      \<and> length (map (\<lambda>t. parseInt (trim t)) ts) = length ts)
   \<and> ((\<forall>t\<in>set ts. parseInt (trim t) \<noteq> NaN) \<and> parseInt (trim bad) = NaN \<longrightarrow>
        fetchWorldsMemberCount_try (Inr (map text_element ts @ text_element bad # rest))
          = Inl (Error (''Could not parse worlds member count from the site. Expected a number but got ''
                        @ apostrophe @ trim bad @ apostrophe))
        \<and> fetchWorldsMemberCount (Inr (map text_element ts @ text_element bad # rest))
            = (Inr None,
               [LogError (''Error fetching member count: Could not parse worlds member count from the site. Expected a number but got ''
                          @ apostrophe @ trim bad @ apostrophe)]))
   \<and> (fetchWorldsMemberCount fetched = (Inr (Some xs), evs) \<longrightarrow>
        (\<exists>els. fetched = Inr els \<and> length xs = length els))"
proof (intro conjI impI)
  assume v: "\<forall>t\<in>set ts. parseInt (trim t) \<noteq> NaN"
  from worlds_loop_valid [OF v, of "[]" "[]"]
  show "fetchWorldsMemberCount (Inr (map text_element ts))
        = (Inr (Some (map (\<lambda>t. parseInt (trim t)) ts)), [])"
    by (simp add: fetchWorldsMemberCount_def fetchWorldsMemberCount_try_def)
  show "length (map (\<lambda>t. parseInt (trim t)) ts) = length ts" by simp
next
  assume a: "(\<forall>t\<in>set ts. parseInt (trim t) \<noteq> NaN) \<and> parseInt (trim bad) = NaN"
  then have l: "worlds_loop (map text_element ts @ text_element bad # rest) []
      = Inl (Error (''Could not parse worlds member count from the site. Expected a number but got ''
                        @ apostrophe @ trim bad @ apostrophe))"
    by (simp add: worlds_loop_valid text_element_def)
  then show "fetchWorldsMemberCount_try (Inr (map text_element ts @ text_element bad # rest))
          = Inl (Error (''Could not parse worlds member count from the site. Expected a number but got ''
                        @ apostrophe @ trim bad @ apostrophe))"
    by (simp add: fetchWorldsMemberCount_try_def)
  from l show "fetchWorldsMemberCount (Inr (map text_element ts @ text_element bad # rest))
            = (Inr None,
               [LogError (''Error fetching member count: Could not parse worlds member count from the site. Expected a number but got ''
                          @ apostrophe @ trim bad @ apostrophe)])"
    by (simp add: fetchWorldsMemberCount_def fetchWorldsMemberCount_try_def)
next
  assume "fetchWorldsMemberCount fetched = (Inr (Some xs), evs)"
  then show "\<exists>els. fetched = Inr els \<and> length xs = length els"
    by (rule fetchWorldsMemberCount_whole)
qed

text \<open>
  The theorem at the texts \<^verbatim>\<open>" 12 "\<close>, \<^verbatim>\<open>"7"\<close>, \<^verbatim>\<open>"0"\<close>, and at \<^verbatim>\<open>"12"\<close>, \<^verbatim>\<open>" n/a "\<close>,
  \<^verbatim>\<open>"3"\<close>.
\<close>

theorem fetchWorldsMemberCount_extracts_witness:
  "fetchWorldsMemberCount (Inr [text_element '' 12 '', text_element ''7'', text_element ''0''])
     = (Inr (Some [Num 12, Num 7, Num 0]), [])
   \<and> fetchWorldsMemberCount (Inr [text_element ''12'', text_element '' n/a '', text_element ''3''])
       = (Inr None,
          [LogError (''Error fetching member count: Could not parse worlds member count from the site. Expected a number but got ''
                     @ apostrophe @ ''n/a'' @ apostrophe)])
   \<and> (\<exists>els. (Inr [text_element '' 12 '', text_element ''7'', text_element ''0'']
               :: error + element list) = Inr els
          \<and> length [Num 12, Num 7, Num 0] = length els)"
proof -
  have p: "parseInt (trim '' 12 '') = Num 12" "parseInt (trim ''7'') = Num 7"
    "parseInt (trim ''0'') = Num 0" "parseInt (trim ''12'') = Num 12"
    "parseInt (trim '' n/a '') = NaN" "trim '' n/a '' = ''n/a''"
    by (simp_all add: parse_defs)
  have v: "\<forall>t\<in>set ['' 12 '', ''7'', ''0'']. parseInt (trim t) \<noteq> NaN"
    "(\<forall>t\<in>set [''12'']. parseInt (trim t) \<noteq> NaN) \<and> parseInt (trim '' n/a '') = NaN"
    by (simp_all add: p(1-5))
  from fetchWorldsMemberCount_extracts [of "['' 12 '', ''7'', ''0'']"] v(1)
  have "fetchWorldsMemberCount (Inr (map text_element ['' 12 '', ''7'', ''0'']))
        = (Inr (Some (map (\<lambda>t. parseInt (trim t)) ['' 12 '', ''7'', ''0''])), [])"
    by blast
  then have a: "fetchWorldsMemberCount
        (Inr [text_element '' 12 '', text_element ''7'', text_element ''0''])
      = (Inr (Some [Num 12, Num 7, Num 0]), [])"
    by (simp add: p)
  from fetchWorldsMemberCount_extracts [of "[''12'']" "'' n/a ''" "[text_element ''3'']"] v(2)
  have b: "fetchWorldsMemberCount (Inr (map text_element [''12''] @ text_element '' n/a '' # [text_element ''3'']))
            = (Inr None,
               [LogError (''Error fetching member count: Could not parse worlds member count from the site. Expected a number but got ''
                          @ apostrophe @ trim '' n/a '' @ apostrophe)])"
    by blast
  from fetchWorldsMemberCount_extracts
    [of _ _ _ "Inr [text_element '' 12 '', text_element ''7'', text_element ''0'']"
       "[Num 12, Num 7, Num 0]" "[]"] a
  have c: "\<exists>els. (Inr [text_element '' 12 '', text_element ''7'', text_element ''0'']
               :: error + element list) = Inr els
          \<and> length [Num 12, Num 7, Num 0] = length els"
    by blast
  from a b c show ?thesis by (simp add: p)
qed

text \<open>
  Claim C7 as stated does not hold.  On an entry that is no number the function does not
  fail: it returns \<^verbatim>\<open>undefined\<close>.  And what it logs is the same whether the entry is the
  first or the second, so the error does not carry the position.
\<close>

theorem fetchWorldsMemberCount_no_position:
  "fetchWorldsMemberCount (Inr [text_element ''x''])
     = (Inr None,
        [LogError (''Error fetching member count: Could not parse worlds member count from the site. Expected a number but got ''
                   @ apostrophe @ ''x'' @ apostrophe)])
   \<and> fetchWorldsMemberCount (Inr [text_element ''7'', text_element ''x''])
       = fetchWorldsMemberCount (Inr [text_element ''x''])"
  by (simp add: fetchWorldsMemberCount_def fetchWorldsMemberCount_try_def text_element_def parse_defs)

section \<open>The message that is built\<close>





lemma buildMessage_returns:
  "worldsCount this \<noteq> None \<Longrightarrow> \<exists>p. buildMessage this clock = Inr p"
  by (auto simp: buildMessage_def Let_def)

lemma buildMessage_shape:
  "buildMessage this clock = Inr p \<Longrightarrow> length (embeds p) = 1 \<and> content p = []"
  by (auto simp: buildMessage_def Let_def split: option.splits)

lemma buildMessage_running [simp]:
  "buildMessage (this\<lparr>running := b\<rparr>) clock = buildMessage this clock"
  by (simp add: buildMessage_def defaultEmbed_def countText_def split: option.splits)

text \<open>The definitions to unfold when the bot is run at a concrete input.\<close>

lemmas example_defs = example_bot_def example_config_def example_client_def
  example_message_def example_template_def

lemmas poll_defs = poll_def poll_try_def poll_update_def poll_worlds_def
  fetchWorldsMemberCount_def fetchWorldsMemberCount_try_def
  fetchTotalMemberCount_def fetchTotalMemberCount_try_def
  buildMessage_def defaultEmbed_def countText_def world_field_def
  text_element_def string_of_nat.simps



section \<open>The message that is found or sent\<close>

lemma hd_sort_key_least:
  assumes "xs \<noteq> []"
  shows "hd (sort_key f xs) \<in> set xs \<and> (\<forall>x\<in>set xs. f (hd (sort_key f xs)) \<le> f x)"
proof -
  have "sort_key f xs \<noteq> []" using assms by (metis length_sort length_0_conv)
  then obtain y ys where ys: "sort_key f xs = y # ys" by (cases "sort_key f xs") auto
  have "sorted (map f (sort_key f xs))" by (rule sorted_sort_key)
  with ys have "\<forall>z\<in>set ys. f y \<le> f z" by simp
  moreover have "set xs = insert y (set ys)" using ys by (metis set_sort list.simps(15))
  ultimately show ?thesis using ys by auto
qed

text \<open>
  Claim C5.  In a text channel whose messages can be fetched, \<^verbatim>\<open>getOrSendMessage\<close> looks
  at the ten most recent messages only.  If some of them are written by the bot's user
  and carry an embed, it returns one of these whose creation timestamp none of the others
  exceeds, and sends nothing.  If none is, it sends the message built from the bot as it
  is, and returns the message sent; for a bot that has just started, that message shows
  no count yet and no world.
\<close>

theorem getOrSendMessage_acquires:
  assumes "fetched_channel env = Inr (Some ch)" and "isTextBased ch"
    and "messages_rejected env = None"
  shows "(filter (botMessage this) (take 10 (messages ch)) \<noteq> [] \<longrightarrow>
       (\<exists>m. getOrSendMessage this env
              = (Inr m, [Log (''Found existing message with ID '' @ apostrophe @ msg_id m
                              @ apostrophe)])
          \<and> m \<in> set (filter (botMessage this) (take 10 (messages ch)))
          \<and> (\<forall>m'\<in>set (filter (botMessage this) (take 10 (messages ch))).
                createdTimestamp m' \<le> createdTimestamp m)))
    \<and> (filter (botMessage this) (take 10 (messages ch)) = []
        \<and> buildMessage this (ready_now env) = Inr p \<and> send_outcome env = Inr given \<longrightarrow>
         getOrSendMessage this env
           = (Inr (sent_message this p given),
              [Send p, Log (''Sent new message with ID '' @ apostrophe @ fst given
                            @ apostrophe)]))
    \<and> (cfg_embed cfg = None \<longrightarrow>
         buildMessage (run (constructor cfg cl)) clock
           = Inr \<lparr>embeds = [\<lparr>embed_fields = [],
                               embed_props =
                                 [(''color'', JNum (Num 0x0099ff)),
                                  (''title'', JStr ''Online Players''),
                                  (''url'', JStr (url cfg)),
                                  (''description'', JStr ''Current member count: *Updating...*''),
                                  (''timestamp'', JStr clock)]\<rparr>],
                  content = []\<rparr>)
    \<and> getOrSendMessage this
         (env\<lparr>fetched_channel := Inr (Some (ch\<lparr>messages := take 10 (messages ch)\<rparr>))\<rparr>)
        = getOrSendMessage this env"
proof (intro conjI impI)
  define cands where "cands = filter (botMessage this) (take 10 (messages ch))"
  assume "filter (botMessage this) (take 10 (messages ch)) \<noteq> []"
  then have ne: "cands \<noteq> []" by (simp add: cands_def)
  define m where "m = hd (sort_key (\<lambda>m. - createdTimestamp m) cands)"
  have g: "getOrSendMessage this env
      = (Inr m, [Log (''Found existing message with ID '' @ apostrophe @ msg_id m @ apostrophe)])"
    using assms ne by (simp add: getOrSendMessage_def Let_def cands_def [symmetric] m_def)
  from hd_sort_key_least [OF ne, of "\<lambda>m. - createdTimestamp m"]
  have "m \<in> set cands" "\<forall>m'\<in>set cands. createdTimestamp m' \<le> createdTimestamp m"
    by (simp_all add: m_def)
  with g show "\<exists>m. getOrSendMessage this env
              = (Inr m, [Log (''Found existing message with ID '' @ apostrophe @ msg_id m
                              @ apostrophe)])
          \<and> m \<in> set (filter (botMessage this) (take 10 (messages ch)))
          \<and> (\<forall>m'\<in>set (filter (botMessage this) (take 10 (messages ch))).
                createdTimestamp m' \<le> createdTimestamp m)"
    unfolding cands_def by blast
next
  assume "filter (botMessage this) (take 10 (messages ch)) = []
        \<and> buildMessage this (ready_now env) = Inr p \<and> send_outcome env = Inr given"
  with assms show "getOrSendMessage this env
           = (Inr (sent_message this p given),
              [Send p, Log (''Sent new message with ID '' @ apostrophe @ fst given
                            @ apostrophe)])"
    by (simp add: getOrSendMessage_def Let_def sent_message_def)
next
  assume "cfg_embed cfg = None"
  then show "buildMessage (run (constructor cfg cl)) clock
           = Inr \<lparr>embeds = [\<lparr>embed_fields = [],
                               embed_props =
                                 [(''color'', JNum (Num 0x0099ff)),
                                  (''title'', JStr ''Online Players''),
                                  (''url'', JStr (url cfg)),
                                  (''description'', JStr ''Current member count: *Updating...*''),
                                  (''timestamp'', JStr clock)]\<rparr>],
                  content = []\<rparr>"
    by (simp add: buildMessage_def defaultEmbed_def countText_def run_def constructor_def)
next
  show "getOrSendMessage this
         (env\<lparr>fetched_channel := Inr (Some (ch\<lparr>messages := take 10 (messages ch)\<rparr>))\<rparr>)
        = getOrSendMessage this env"
    using assms by (simp add: getOrSendMessage_def Let_def split: sum.splits)
qed

text \<open>
  The theorem at a channel where the bot's two messages with an embed were created at
  1000 and 1200 (the one of 1200 is returned), and at a channel where the bot's message
  is the eleventh (a new message is sent).
\<close>

theorem getOrSendMessage_acquires_witness:
  "getOrSendMessage (run (constructor example_config example_client)) (example_ready_env busy_channel)
     = (Inr newer_message,
        [Log (''Found existing message with ID '' @ apostrophe @ ''902'' @ apostrophe)])
   \<and> getOrSendMessage (run (constructor example_config example_client))
         (example_ready_env crowded_channel)
       = (Inr \<lparr>msg_id = ''950'', author_id = ''7'',
               msg_embeds =
                 [\<lparr>embed_fields = [],
                   embed_props =
                     [(''color'', JNum (Num 0x0099ff)),
                      (''title'', JStr ''Online Players''),
                      (''url'', JStr ''https://example.org/''),
                      (''description'', JStr ''Current member count: *Updating...*''),
                      (''timestamp'', JStr ''2024-05-01T11:59:00.000Z'')]\<rparr>],
               createdTimestamp = 2000\<rparr>,
          [Send \<lparr>embeds =
                   [\<lparr>embed_fields = [],
                     embed_props =
                       [(''color'', JNum (Num 0x0099ff)),
                        (''title'', JStr ''Online Players''),
                        (''url'', JStr ''https://example.org/''),
                        (''description'', JStr ''Current member count: *Updating...*''),
                        (''timestamp'', JStr ''2024-05-01T11:59:00.000Z'')]\<rparr>],
                 content = []\<rparr>,
           Log (''Sent new message with ID '' @ apostrophe @ ''950'' @ apostrophe)])"
proof -
  define this where "this = run (constructor example_config example_client)"
  define p where "p = \<lparr>embeds =
                   [\<lparr>embed_fields = [],
                     embed_props =
                       [(''color'', JNum (Num 0x0099ff)),
                        (''title'', JStr ''Online Players''),
                        (''url'', JStr (url example_config)),
                        (''description'', JStr ''Current member count: *Updating...*''),
                        (''timestamp'', JStr ''2024-05-01T11:59:00.000Z'')]\<rparr>],
                 content = []\<rparr>"
  have c: "filter (botMessage this) (take 10 (messages busy_channel))
      = [example_message, newer_message]"
    "filter (botMessage this) (take 10 (messages crowded_channel)) = []"
    by (simp_all add: this_def run_def constructor_def botMessage_def busy_channel_def
        crowded_channel_def user_message_def plain_message_def newer_message_def example_defs)
  have h: "fetched_channel (example_ready_env ch) = Inr (Some ch)"
    "messages_rejected (example_ready_env ch) = None" for ch
    by (simp_all add: example_ready_env_def)
  have t: "isTextBased busy_channel" "isTextBased crowded_channel"
    by (simp_all add: busy_channel_def crowded_channel_def)
  have n: "cfg_embed example_config = None" by (simp add: example_config_def)
  from getOrSendMessage_acquires [OF h(1) t(2) h(2), THEN conjunct2, THEN conjunct2,
      THEN conjunct1, THEN mp, OF n, of example_client "''2024-05-01T11:59:00.000Z''"]
  have p: "buildMessage this (ready_now (example_ready_env crowded_channel)) = Inr p"
    by (simp add: this_def p_def example_ready_env_def)
  have ne: "filter (botMessage this) (take 10 (messages busy_channel)) \<noteq> []"
    by (simp add: c(1))
  from getOrSendMessage_acquires [OF h(1) t(1) h(2), THEN conjunct1, THEN mp, OF ne]
  obtain m where m: "getOrSendMessage this (example_ready_env busy_channel)
              = (Inr m, [Log (''Found existing message with ID '' @ apostrophe @ msg_id m
                              @ apostrophe)])"
     "m \<in> set (filter (botMessage this) (take 10 (messages busy_channel)))"
     "\<forall>m'\<in>set (filter (botMessage this) (take 10 (messages busy_channel))).
         createdTimestamp m' \<le> createdTimestamp m"
    by blast
  from m(2,3) have "m = newer_message"
    unfolding c(1) by (auto simp: example_message_def newer_message_def)
  with m(1) have 1: "getOrSendMessage this (example_ready_env busy_channel)
     = (Inr newer_message,
        [Log (''Found existing message with ID '' @ apostrophe @ ''902'' @ apostrophe)])"
    by (simp add: newer_message_def)
  from getOrSendMessage_acquires [OF h(1) t(2) h(2), THEN conjunct2, THEN conjunct1,
      of this p "(''950'', 2000)"] c(2) p
  have "getOrSendMessage this (example_ready_env crowded_channel)
           = (Inr (sent_message this p (''950'', 2000)),
              [Send p, Log (''Sent new message with ID '' @ apostrophe @ fst (''950'', 2000::int)
                            @ apostrophe)])"
    by (simp add: example_ready_env_def)
  then have 2: "getOrSendMessage this (example_ready_env crowded_channel)
            = (Inr \<lparr>msg_id = ''950'', author_id = ''7'', msg_embeds = embeds p,
                    createdTimestamp = 2000\<rparr>,
               [Send p, Log (''Sent new message with ID '' @ apostrophe @ ''950'' @ apostrophe)])"
    by (simp add: sent_message_def this_def run_def constructor_def example_client_def)
  from 1 2 show ?thesis
    unfolding this_def p_def by (simp add: example_config_def)
qed

section \<open>One cycle and the cycles that follow\<close>

lemma fetchTotalMemberCount_try_number:
  "fetchTotalMemberCount_try fetched = Inr c \<Longrightarrow>
   \<exists>text n. fetched = Inr text \<and> parseInt (trim text) = Num n \<and> c = Num n"
  by (cases "fetched") (auto simp: fetchTotalMemberCount_try_def Let_def isNaN_iff
      split: if_splits intro: number.exhaust)

lemma fetchTotalMemberCount_cases:
  "(\<exists>err. fetchTotalMemberCount_try fetched = Inl err \<and>
      fetchTotalMemberCount fetched
        = (Inr None, [LogError (''Error fetching member count: '' @ err_message err)]))
   \<or> (\<exists>text n. fetched = Inr text \<and> parseInt (trim text) = Num n \<and>
        fetchTotalMemberCount fetched = (Inr (Some (Num n)), []))"
proof (cases "fetchTotalMemberCount_try fetched")
  case (Inl err)
  then show ?thesis by (simp add: fetchTotalMemberCount_def)
next
  case (Inr c)
  with fetchTotalMemberCount_try_number [OF Inr] show ?thesis
    by (auto simp: fetchTotalMemberCount_def)
qed

lemma fetchWorldsMemberCount_returns:
  "\<exists>w evs. fetchWorldsMemberCount fetched = (Inr w, evs) \<and> edits evs = [] \<and> \<not> armed evs"
  by (cases "fetchWorldsMemberCount_try fetched")
    (simp_all add: fetchWorldsMemberCount_def armed_def)

lemma edits_append: "edits (xs @ ys) = edits xs @ edits ys"
  by (induction xs rule: edits.induct) simp_all

lemma armed_append: "armed (xs @ ys) \<longleftrightarrow> armed xs \<or> armed ys"
  by (simp add: armed_def list_ex_iff) blast

lemma poll_worlds_returns:
  "\<exists>w evs. poll_worlds this env = (Inr (), this\<lparr>worldsCount := w\<rparr>, evs)
     \<and> edits evs = [] \<and> \<not> armed evs"
proof (cases "cfg_worldsCount (config this) \<noteq> None \<and> cfg_worldsCount (config this) \<noteq> Some []")
  case True
  obtain w evs where "fetchWorldsMemberCount (fetched_worldsCount env) = (Inr w, evs)"
    "edits evs = []" "\<not> armed evs"
    using fetchWorldsMemberCount_returns by blast
  with True show ?thesis
    by (auto simp: poll_worlds_def edits_append armed_append armed_def)
next
  case False
  then have "poll_worlds this env = (Inr (), this, [])"
    by (auto simp: poll_worlds_def)
  then have "poll_worlds this env = (Inr (), this\<lparr>worldsCount := worldsCount this\<rparr>, [])
      \<and> edits [] = [] \<and> \<not> armed []"
    by (simp add: armed_def)
  then show ?thesis by blast
qed

lemma fetchTotalMemberCount_returns:
  "\<exists>newCount evs. fetchTotalMemberCount fetched = (Inr newCount, evs)
     \<and> edits evs = [] \<and> \<not> armed evs
     \<and> (newCount = None \<or> (\<exists>text n. fetched = Inr text \<and> parseInt (trim text) = Num n
                                     \<and> newCount = Some (Num n)))"
  using fetchTotalMemberCount_cases [of fetched] by (auto simp: armed_def)

lemma poll_update_cases:
  assumes "poll_update this env newCount = (r, this', evs)"
  shows "(this' = this \<and> r = Inr () \<and> evs = []
          \<and> (newCount = None \<or> newCount = Some NaN \<or> newCount = cachedCount this))
     \<or> (\<exists>n. newCount = Some (Num n) \<and> newCount \<noteq> cachedCount this
           \<and> this' = this\<lparr>cachedCount := newCount\<rparr>
           \<and> ((\<exists>ref p. messageRef this = Some ref \<and> buildMessage this' (now env) = Inr p
                  \<and> ((edit_rejected env = None \<and> r = Inr ()
                        \<and> evs = [Edit ref p, Log ''Updated message''])
                      \<or> (\<exists>err. edit_rejected env = Some err \<and> r = Inl err
                            \<and> evs = [Edit ref p])))
                \<or> (\<exists>err. r = Inl err \<and> evs = [])))"
proof (cases newCount)
  case None
  with assms show ?thesis by (simp add: poll_update_def)
next
  case (Some c)
  show ?thesis
  proof (cases c)
    case NaN
    with Some assms show ?thesis by (simp add: poll_update_def)
  next
    case (Num n)
    show ?thesis
    proof (cases "newCount = cachedCount this")
      case True
      with Some Num assms show ?thesis by (simp add: poll_update_def)
    next
      case False
      with Some Num assms show ?thesis
        by (auto simp: poll_update_def Let_def split: option.splits sum.splits)
    qed
  qed
qed

lemma poll_try_summary:
  obtains newCount evs1 w evs2 r this2 evs3 where
    "fetchTotalMemberCount (fetched_totalCount env) = (Inr newCount, evs1)"
    "edits evs1 = []" "\<not> armed evs1"
    "newCount = None \<or> (\<exists>text n. fetched_totalCount env = Inr text \<and> parseInt (trim text) = Num n
                                     \<and> newCount = Some (Num n))"
    "poll_worlds this env = (Inr (), this\<lparr>worldsCount := w\<rparr>, evs2)"
    "edits evs2 = []" "\<not> armed evs2"
    "poll_update (this\<lparr>worldsCount := w\<rparr>) env newCount = (r, this2, evs3)"
    "poll_try this env
       = (r, this2,
          Log ''Polling site...'' # evs1
          @ [Log (''Fetched member count: '' @ toString_opt newCount)] @ evs2 @ evs3)"
proof -
  obtain newCount evs1 where a: "fetchTotalMemberCount (fetched_totalCount env) = (Inr newCount, evs1)"
    "edits evs1 = []" "\<not> armed evs1"
    "newCount = None \<or> (\<exists>text n. fetched_totalCount env = Inr text \<and> parseInt (trim text) = Num n
                                     \<and> newCount = Some (Num n))"
    using fetchTotalMemberCount_returns by blast
  obtain w evs2 where b: "poll_worlds this env = (Inr (), this\<lparr>worldsCount := w\<rparr>, evs2)"
    "edits evs2 = []" "\<not> armed evs2"
    using poll_worlds_returns by blast
  obtain r this2 evs3 where c: "poll_update (this\<lparr>worldsCount := w\<rparr>) env newCount = (r, this2, evs3)"
    by (cases "poll_update (this\<lparr>worldsCount := w\<rparr>) env newCount") auto
  have "poll_try this env
       = (r, this2,
          Log ''Polling site...'' # evs1
          @ [Log (''Fetched member count: '' @ toString_opt newCount)] @ evs2 @ evs3)"
    by (simp add: poll_try_def a(1) b(1) c)
  with a b c that show thesis by blast
qed

lemma poll_unfold:
  "poll_try this env = (r, this1, evs) \<Longrightarrow>
   poll this env =
     (case r of
        Inl err \<Rightarrow> (this1\<lparr>running := False\<rparr>,
                    evs @ [LogError (''Error during polling: '' @ err_message err)])
      | Inr u \<Rightarrow> if running this1
                 then (this1, evs @ [SetTimeout (pollRate (config this1) * 1000)])
                 else (this1, evs))"
  by (simp add: poll_def split: sum.splits)

lemma poll_update_events:
  assumes "poll_update this env newCount = (r, this', evs)"
  shows "\<not> armed evs"
    and "edits evs \<noteq> [] \<Longrightarrow> edit_rejected env = Some err \<Longrightarrow> r = Inl err"
  using poll_update_cases [OF assms] by (auto simp: armed_def)

lemma poll_try_events:
  "\<not> armed (snd (snd (poll_try this env)))"
  "edits (snd (snd (poll_try this env))) \<noteq> [] \<Longrightarrow> edit_rejected env = Some err \<Longrightarrow>
   fst (poll_try this env) = Inl err"
proof -
  obtain newCount evs1 w evs2 r this2 evs3 where s:
    "edits evs1 = []" "\<not> armed evs1" "edits evs2 = []" "\<not> armed evs2"
    "poll_update (this\<lparr>worldsCount := w\<rparr>) env newCount = (r, this2, evs3)"
    "poll_try this env
       = (r, this2,
          Log ''Polling site...'' # evs1
          @ [Log (''Fetched member count: '' @ toString_opt newCount)] @ evs2 @ evs3)"
    by (rule poll_try_summary [of env this]) blast
  show "\<not> armed (snd (snd (poll_try this env)))"
    using s poll_update_events(1) [OF s(5)] by (simp add: armed_append) (simp add: armed_def)
  show "fst (poll_try this env) = Inl err"
    if "edits (snd (snd (poll_try this env))) \<noteq> []" "edit_rejected env = Some err"
    using that s poll_update_events(2) [OF s(5), of err] by (simp add: edits_append)
qed

subsection \<open>Errors\<close>

text \<open>
  Claim C9.  When fetching or reading the total count fails, \<^verbatim>\<open>fetchTotalMemberCount\<close>
  logs the error and returns \<^verbatim>\<open>undefined\<close>.  The cycle then leaves \<open>cachedCount\<close> and the
  tracked message as they are and edits nothing; \<open>running\<close> stays as it is, and while it
  holds the timer of the next cycle is armed and that cycle runs.
\<close>

theorem total_fetch_failure_keeps_polling:
  assumes "fetchTotalMemberCount_try (fetched_totalCount env) = Inl err"
  shows "fetchTotalMemberCount (fetched_totalCount env)
           = (Inr None, [LogError (''Error fetching member count: '' @ err_message err)])
     \<and> cachedCount (fst (poll this env)) = cachedCount this
     \<and> messageRef (fst (poll this env)) = messageRef this
     \<and> edits (snd (poll this env)) = []
     \<and> running (fst (poll this env)) = running this
     \<and> (running this \<longrightarrow>
          armed (snd (poll this env))
          \<and> last (snd (poll this env)) = SetTimeout (pollRate (config this) * 1000)
          \<and> pollLoop this (env # envs)
              = (case pollLoop (fst (poll this env)) envs of
                   (this'', evs') \<Rightarrow> (this'', snd (poll this env) @ evs')))"
proof -
  have f: "fetchTotalMemberCount (fetched_totalCount env)
           = (Inr None, [LogError (''Error fetching member count: '' @ err_message err)])"
    using assms by (simp add: fetchTotalMemberCount_def)
  obtain w evs2 where b: "poll_worlds this env = (Inr (), this\<lparr>worldsCount := w\<rparr>, evs2)"
    "edits evs2 = []" "\<not> armed evs2"
    using poll_worlds_returns by blast
  define evs where "evs = Log ''Polling site...''
      # [LogError (''Error fetching member count: '' @ err_message err)]
      @ [Log (''Fetched member count: '' @ toString_opt None)] @ evs2"
  have t: "poll_try this env = (Inr (), this\<lparr>worldsCount := w\<rparr>, evs)"
    by (simp add: poll_try_def f b(1) poll_update_def evs_def)
  have e: "edits evs = []" "\<not> armed evs"
    using b by (simp_all add: evs_def edits_append armed_append armed_def)
  have p: "poll this env =
      (if running this
       then (this\<lparr>worldsCount := w\<rparr>, evs @ [SetTimeout (pollRate (config this) * 1000)])
       else (this\<lparr>worldsCount := w\<rparr>, evs))"
    using poll_unfold [OF t] by simp
  have "running this \<longrightarrow> pollLoop this (env # envs)
              = (case pollLoop (fst (poll this env)) envs of
                   (this'', evs') \<Rightarrow> (this'', snd (poll this env) @ evs'))"
    by (simp add: p armed_append armed_def split: prod.splits)
  with f p e show ?thesis
    by (simp add: edits_append armed_append armed_def)
qed

text \<open>
  The theorem at a cycle in which the page cannot be fetched.
\<close>

theorem total_fetch_failure_keeps_polling_witness:
  "cachedCount (fst (poll example_bot down_env)) = Some (Num 42)
   \<and> edits (snd (poll example_bot down_env)) = []
   \<and> running (fst (poll example_bot down_env))
   \<and> last (snd (poll example_bot down_env)) = SetTimeout 60000"
proof -
  have h: "fetchTotalMemberCount_try (fetched_totalCount down_env) = Inl (Error ''fetch failed'')"
    by (simp add: down_env_def fetchTotalMemberCount_try_def)
  from total_fetch_failure_keeps_polling [OF h, of example_bot]
  show ?thesis by (simp add: example_bot_def example_config_def)
qed

text \<open>
  Claim C1, as the code has it.  An error of fetching or reading never reaches the
  \<^verbatim>\<open>catch\<close> of \<^verbatim>\<open>poll\<close>: both fetch functions return whatever was fetched.  An error that
  does reach it, which the rejection of an edit by Discord always does, is logged there
  and clears \<open>running\<close>; no timer is armed, and whatever the outside would do next, no
  further cycle runs.
\<close>

theorem poll_boundary:
  "(\<exists>v evs. fetchTotalMemberCount fetched = (Inr v, evs))
   \<and> (\<exists>w evs. fetchWorldsMemberCount fetched' = (Inr w, evs))
   \<and> (fst (poll_try this env) = Inl err \<longrightarrow>
        poll this env
          = ((fst (snd (poll_try this env)))\<lparr>running := False\<rparr>,
             snd (snd (poll_try this env))
             @ [LogError (''Error during polling: '' @ err_message err)])
        \<and> \<not> running (fst (poll this env))
        \<and> \<not> armed (snd (poll this env))
        \<and> pollLoop this (env # envs) = poll this env)
   \<and> (edits (snd (snd (poll_try this env))) \<noteq> [] \<and> edit_rejected env = Some err \<longrightarrow>
        fst (poll_try this env) = Inl err)"
proof (intro conjI impI)
  show "\<exists>v evs. fetchTotalMemberCount fetched = (Inr v, evs)"
    using fetchTotalMemberCount_returns by blast
  show "\<exists>w evs. fetchWorldsMemberCount fetched' = (Inr w, evs)"
    using fetchWorldsMemberCount_returns by blast
next
  assume a: "fst (poll_try this env) = Inl err"
  then have t: "poll_try this env
      = (Inl err, fst (snd (poll_try this env)), snd (snd (poll_try this env)))"
    by (cases "poll_try this env") simp
  from poll_unfold [OF t]
  show p: "poll this env
          = ((fst (snd (poll_try this env)))\<lparr>running := False\<rparr>,
             snd (snd (poll_try this env))
             @ [LogError (''Error during polling: '' @ err_message err)])"
    by simp
  then show "\<not> running (fst (poll this env))" by simp
  from p poll_try_events(1) [of this env]
  show n: "\<not> armed (snd (poll this env))"
    by (simp add: armed_append) (simp add: armed_def)
  then show "pollLoop this (env # envs) = poll this env"
    by (cases "poll this env") simp
next
  assume "edits (snd (snd (poll_try this env))) \<noteq> [] \<and> edit_rejected env = Some err"
  then show "fst (poll_try this env) = Inl err"
    using poll_try_events(2) by blast
qed

text \<open>
  The theorem at a cycle in which the count has changed and Discord rejects the edit.
\<close>

theorem poll_boundary_witness:
  "\<not> running (fst (poll example_bot rejected_env))
   \<and> last (snd (poll example_bot rejected_env)) = LogError ''Error during polling: Unknown Message''
   \<and> pollLoop example_bot [rejected_env, down_env] = poll example_bot rejected_env"
proof -
  have e: "edits (snd (snd (poll_try example_bot rejected_env))) \<noteq> []
      \<and> edit_rejected rejected_env = Some (Error ''Unknown Message'')"
    by (simp add: poll_defs example_bot_def example_config_def rejected_env_def parse_defs)
  note w = poll_boundary [of "Inr ''43''" "Inr []" example_bot rejected_env "Error ''Unknown Message''" "[down_env]"]
  from w e have f: "fst (poll_try example_bot rejected_env) = Inl (Error ''Unknown Message'')"
    by blast
  with w have c: "poll example_bot rejected_env
          = ((fst (snd (poll_try example_bot rejected_env)))\<lparr>running := False\<rparr>,
             snd (snd (poll_try example_bot rejected_env))
             @ [LogError (''Error during polling: '' @ err_message (Error ''Unknown Message''))])"
    "\<not> running (fst (poll example_bot rejected_env))"
    "pollLoop example_bot (rejected_env # [down_env]) = poll example_bot rejected_env"
    by blast+
  from c(1) have "last (snd (poll example_bot rejected_env))
      = LogError ''Error during polling: Unknown Message''"
    by simp
  with c(2,3) show ?thesis by (simp del: pollLoop.simps)
qed

text \<open>
  Claim C1 as stated does not hold: in a cycle in which \<^verbatim>\<open>util.fetchData\<close> throws, the
  error is logged inside \<^verbatim>\<open>fetchTotalMemberCount\<close>, the bot keeps running and the timer of
  the next cycle is armed.
\<close>

theorem fetch_error_keeps_running:
  "fetched_totalCount down_env = Inl (Error ''fetch failed'')
   \<and> poll example_bot down_env =
     (example_bot,
      [Log ''Polling site...'', LogError ''Error fetching member count: fetch failed'',
       Log ''Fetched member count: undefined'', Log ''Fetched worlds count: 5,9'',
       SetTimeout 60000])
   \<and> running example_bot"
  by (simp add: poll_defs example_bot_def example_config_def down_env_def parse_defs)

subsection \<open>Edits\<close>

text \<open>
  Claim C3.  In a cycle that fetches the count \<open>n\<close> and ends without an error: if \<open>n\<close>
  is the cached count, nothing is edited and the cached count stays, whatever was fetched
  for the worlds; otherwise the tracked message is edited once, with the message built
  from the bot as the cycle leaves it, and the cached count is \<open>n\<close>.
\<close>

theorem change_gating:
  assumes "fetchTotalMemberCount (fetched_totalCount env) = (Inr (Some n), evs1)"
    and "fst (poll_try this env) = Inr ()"
  shows "(Some n = cachedCount this \<longrightarrow>
            edits (snd (poll this env)) = []
            \<and> cachedCount (fst (poll this env)) = cachedCount this)
     \<and> (Some n \<noteq> cachedCount this \<longrightarrow>
            (\<exists>ref p. messageRef this = Some ref
                \<and> edits (snd (poll this env)) = [(ref, p)]
                \<and> buildMessage (fst (poll this env)) (now env) = Inr p)
            \<and> cachedCount (fst (poll this env)) = Some n)"
proof -
  obtain newCount evs1' w evs2 r this2 evs3 where s:
    "fetchTotalMemberCount (fetched_totalCount env) = (Inr newCount, evs1')"
    "edits evs1' = []" "edits evs2 = []"
    "newCount = None \<or> (\<exists>text n. fetched_totalCount env = Inr text \<and> parseInt (trim text) = Num n
                                     \<and> newCount = Some (Num n))"
    "poll_update (this\<lparr>worldsCount := w\<rparr>) env newCount = (r, this2, evs3)"
    "poll_try this env
       = (r, this2,
          Log ''Polling site...'' # evs1'
          @ [Log (''Fetched member count: '' @ toString_opt newCount)] @ evs2 @ evs3)"
    by (rule poll_try_summary [of env this]) blast
  from s(1) assms(1) have nc: "newCount = Some n" by simp
  from s(4) nc obtain k where k: "n = Num k" by auto
  from s(6) assms(2) have r: "r = Inr ()" by simp
  define evs where "evs = Log ''Polling site...'' # evs1'
          @ [Log (''Fetched member count: '' @ toString_opt newCount)] @ evs2 @ evs3"
  have ed: "edits evs = edits evs3"
    using s(2,3) by (simp add: evs_def edits_append)
  have p: "poll this env =
      (if running this2 then (this2, evs @ [SetTimeout (pollRate (config this2) * 1000)])
       else (this2, evs))"
    using poll_unfold [OF s(6)] r by (simp add: evs_def)
  then have pe: "edits (snd (poll this env)) = edits evs3" "fst (poll this env) = this2"
    using ed by (simp_all add: edits_append)
  from poll_update_cases [OF s(5)] r nc k
  have "(Some n = cachedCount this \<longrightarrow> evs3 = [] \<and> this2 = this\<lparr>worldsCount := w\<rparr>)
     \<and> (Some n \<noteq> cachedCount this \<longrightarrow>
          (\<exists>ref p. messageRef this = Some ref \<and> evs3 = [Edit ref p, Log ''Updated message'']
              \<and> buildMessage this2 (now env) = Inr p)
          \<and> this2 = this\<lparr>worldsCount := w, cachedCount := Some n\<rparr>)"
    by auto
  with pe show ?thesis by auto
qed

text \<open>
  The theorem at a cycle that fetches 42 again while the worlds have changed, and at a
  cycle that fetches 17.
\<close>

theorem change_gating_witness:
  "edits (snd (poll example_bot same_env)) = []
   \<and> cachedCount (fst (poll example_bot same_env)) = Some (Num 42)
   \<and> worldsCount (fst (poll example_bot same_env)) = Some [Num 6, Num 8]
   \<and> (\<exists>p. edits (snd (poll example_bot changed_env)) = [(example_message, p)]
          \<and> buildMessage (fst (poll example_bot changed_env)) ''2024-05-01T12:03:00.000Z'' = Inr p)
   \<and> cachedCount (fst (poll example_bot changed_env)) = Some (Num 17)"
proof -
  have a: "fetchTotalMemberCount (fetched_totalCount same_env) = (Inr (Some (Num 42)), [])"
    "fst (poll_try example_bot same_env) = Inr ()"
    by (simp_all add: poll_defs example_bot_def example_config_def same_env_def parse_defs)
  have b: "fetchTotalMemberCount (fetched_totalCount changed_env) = (Inr (Some (Num 17)), [])"
    "fst (poll_try example_bot changed_env) = Inr ()"
    by (simp_all add: poll_defs example_bot_def example_config_def changed_env_def parse_defs)
  have w: "worldsCount (fst (poll example_bot same_env)) = Some [Num 6, Num 8]"
    by (simp add: poll_defs example_bot_def example_config_def same_env_def parse_defs)
  have c: "cachedCount example_bot = Some (Num 42)" "messageRef example_bot = Some example_message"
    "now changed_env = ''2024-05-01T12:03:00.000Z''"
    by (simp_all add: example_bot_def changed_env_def)
  from change_gating [OF a] change_gating [OF b] c w show ?thesis by simp
qed

subsection \<open>The cache\<close>

text \<open>
  Claim C4 fails on the code.  The second world shows no number:
  \<^verbatim>\<open>fetchWorldsMemberCount\<close> returns \<^verbatim>\<open>undefined\<close>, and \<^verbatim>\<open>poll\<close> stores it in
  \<open>worldsCount\<close>, which held the sequence 5, 9.  The bot keeps running, and the next
  \<^verbatim>\<open>buildMessage\<close> throws a TypeError.
\<close>

theorem worldsCount_undefined_after_failed_fetch:
  "worldsCount example_bot = Some [Num 5, Num 9]
   \<and> cfg_worldsCount (config example_bot) = Some ''.world''
   \<and> worldsCount (fst (poll example_bot broken_worlds_env)) = None
   \<and> running (fst (poll example_bot broken_worlds_env))
   \<and> buildMessage (fst (poll example_bot broken_worlds_env)) ''2024-05-01T12:05:00.000Z''
       = Inl (TypeError ''Cannot read properties of undefined (reading 'map')'')"
  by (simp add: poll_defs example_bot_def example_config_def broken_worlds_env_def parse_defs)





subsection \<open>What the bot writes\<close>

lemma getOrSendMessage_sends:
  assumes "q \<in> set (sends (snd (getOrSendMessage this renv)))"
  shows "buildMessage this (ready_now renv) = Inr q"
    and "getOrSendMessage this renv = (Inr m, evs) \<Longrightarrow>
         \<exists>given. m = sent_message this q given"
  using assms
  by (auto simp: getOrSendMessage_def Let_def
      split: sum.splits option.splits if_splits) blast

lemma poll_edits:
  assumes "(ref, q) \<in> set (edits (snd (poll this env)))"
  shows "buildMessage (fst (poll this env)) (now env) = Inr q"
proof -
  obtain newCount evs1 w evs2 r this2 evs3 where s:
    "edits evs1 = []" "edits evs2 = []"
    "poll_update (this\<lparr>worldsCount := w\<rparr>) env newCount = (r, this2, evs3)"
    "poll_try this env
       = (r, this2,
          Log ''Polling site...'' # evs1
          @ [Log (''Fetched member count: '' @ toString_opt newCount)] @ evs2 @ evs3)"
    by (rule poll_try_summary [of env this]) blast
  have e: "edits (snd (poll this env)) = edits evs3"
    using poll_unfold [OF s(4)] s(1,2) by (simp add: edits_append split: sum.splits)
  have b: "buildMessage (fst (poll this env)) (now env) = buildMessage this2 (now env)"
    using poll_unfold [OF s(4)] by (simp split: sum.splits)
  from poll_update_cases [OF s(3)] assms e
  have "buildMessage this2 (now env) = Inr q" by auto
  with b show ?thesis by simp
qed

text \<open>
  Claim C10.  A message that \<^verbatim>\<open>buildMessage\<close> returns has one embed and empty content,
  and \<^verbatim>\<open>buildMessage\<close> does return one whenever \<open>worldsCount\<close> holds an array.  Every
  message sent by \<^verbatim>\<open>getOrSendMessage\<close> and every edit made by \<^verbatim>\<open>poll\<close> carries what
  \<^verbatim>\<open>buildMessage\<close> returned, and the message that was sent passes the filter of
  \<^verbatim>\<open>getOrSendMessage\<close>.
\<close>

theorem built_messages_pass_filter:
  "(buildMessage this clock = Inr p \<longrightarrow> length (embeds p) = 1 \<and> content p = [])
   \<and> (worldsCount this \<noteq> None \<longrightarrow> (\<exists>p'. buildMessage this clock = Inr p'))
   \<and> (\<forall>q\<in>set (sends (snd (getOrSendMessage this renv))).
         buildMessage this (ready_now renv) = Inr q)
   \<and> (\<forall>(ref, q)\<in>set (edits (snd (poll this env))).
         buildMessage (fst (poll this env)) (now env) = Inr q)
   \<and> (getOrSendMessage this renv = (Inr m, evs) \<and> sends evs \<noteq> [] \<longrightarrow> botMessage this m)"
proof (intro conjI impI ballI)
  assume "buildMessage this clock = Inr p"
  then show "length (embeds p) = 1" "content p = []"
    using buildMessage_shape by blast+
next
  assume "worldsCount this \<noteq> None"
  then show "\<exists>p'. buildMessage this clock = Inr p'" by (rule buildMessage_returns)
next
  fix q assume "q \<in> set (sends (snd (getOrSendMessage this renv)))"
  then show "buildMessage this (ready_now renv) = Inr q" by (rule getOrSendMessage_sends(1))
next
  fix x assume "x \<in> set (edits (snd (poll this env)))"
  moreover obtain ref q where "x = (ref, q)" by (cases x)
  ultimately show "case x of (ref, q) \<Rightarrow> buildMessage (fst (poll this env)) (now env) = Inr q"
    using poll_edits [of ref q this env] by simp
next
  assume a: "getOrSendMessage this renv = (Inr m, evs) \<and> sends evs \<noteq> []"
  then obtain q where q: "q \<in> set (sends (snd (getOrSendMessage this renv)))"
    by (cases "sends evs") auto
  from getOrSendMessage_sends [OF q] a obtain given where
    "buildMessage this (ready_now renv) = Inr q" "m = sent_message this q given"
    by blast
  with buildMessage_shape [of this "ready_now renv" q]
  show "botMessage this m" by (simp add: botMessage_def sent_message_def)
qed

text \<open>
  The theorem at the bot of the examples, at the edit of a cycle that fetches 17, and at
  the message sent into a channel where none of the bot is among the last ten.
\<close>

theorem built_messages_pass_filter_witness:
  "(\<exists>p. buildMessage example_bot ''2024-05-01T12:00:00.000Z'' = Inr p
        \<and> length (embeds p) = 1 \<and> content p = [])
   \<and> (\<exists>q. edits (snd (poll example_bot changed_env)) = [(example_message, q)]
          \<and> length (embeds q) = 1)
   \<and> buildMessage (run (constructor example_config example_client)) ''2024-05-01T11:59:00.000Z''
       = Inr \<lparr>embeds = [defaultEmbed (run (constructor example_config example_client))
                            ''2024-05-01T11:59:00.000Z'' []],
              content = []\<rparr>
   \<and> botMessage (run (constructor example_config example_client))
        (sent_message (run (constructor example_config example_client))
           \<lparr>embeds = [defaultEmbed (run (constructor example_config example_client))
                         ''2024-05-01T11:59:00.000Z'' []],
            content = []\<rparr>
           (''950'', 2000))"
proof -
  define this where "this = run (constructor example_config example_client)"
  define p0 where "p0 = \<lparr>embeds = [defaultEmbed this ''2024-05-01T11:59:00.000Z'' []], content = []\<rparr>"
  have w: "worldsCount example_bot \<noteq> None" by (simp add: example_bot_def)
  note t = built_messages_pass_filter [of example_bot "''2024-05-01T12:00:00.000Z''" _
      "example_ready_env crowded_channel" changed_env]
  from t w obtain p where p: "buildMessage example_bot ''2024-05-01T12:00:00.000Z'' = Inr p"
    by blast
  from built_messages_pass_filter [of example_bot "''2024-05-01T12:00:00.000Z''" p] p
  have 1: "length (embeds p) = 1 \<and> content p = []" by blast
  have "\<exists>q. edits (snd (poll example_bot changed_env)) = [(example_message, q)]"
    by (simp add: poll_defs example_bot_def example_config_def changed_env_def parse_defs)
  then obtain q where q: "edits (snd (poll example_bot changed_env)) = [(example_message, q)]"
    by blast
  with t have b: "buildMessage (fst (poll example_bot changed_env)) (now changed_env) = Inr q"
    by simp
  from built_messages_pass_filter
    [of "fst (poll example_bot changed_env)" "now changed_env" q] b
  have "length (embeds q) = 1" by blast
  with q have 2: "\<exists>q. edits (snd (poll example_bot changed_env)) = [(example_message, q)]
          \<and> length (embeds q) = 1"
    by blast
  have g: "getOrSendMessage this (example_ready_env crowded_channel)
      = (Inr (sent_message this p0 (''950'', 2000)),
         [Send p0, Log (''Sent new message with ID '' @ apostrophe @ ''950'' @ apostrophe)])"
    by (simp add: getOrSendMessage_def Let_def this_def run_def constructor_def botMessage_def
        example_ready_env_def crowded_channel_def user_message_def example_defs p0_def
        buildMessage_def sent_message_def)
  from built_messages_pass_filter [of this _ _ "example_ready_env crowded_channel"] g
  have "buildMessage this (ready_now (example_ready_env crowded_channel)) = Inr p0"
    by simp
  then have 3: "buildMessage this ''2024-05-01T11:59:00.000Z'' = Inr p0"
    by (simp add: example_ready_env_def)
  from built_messages_pass_filter [of this _ _ "example_ready_env crowded_channel" _
      "sent_message this p0 (''950'', 2000)"
      "[Send p0, Log (''Sent new message with ID '' @ apostrophe @ ''950'' @ apostrophe)]"] g
  have 4: "botMessage this (sent_message this p0 (''950'', 2000))" by simp
  from p 1 2 3 4 show ?thesis unfolding this_def p0_def by blast
qed

end
